theory Spec2Isabelle
  imports Complex_Main
begin

section \<open>Python values and built-ins used by the parsers\<close>

text \<open>
  The parsers of \<^verbatim>\<open>parsing.py\<close> work on Python strings with \<^verbatim>\<open>str.split\<close>,
  \<^verbatim>\<open>str.replace\<close>, \<^verbatim>\<open>str.strip\<close>, slicing, \<^verbatim>\<open>float\<close> and one regular
  expression. Strings are modelled as \<^typ>\<open>string\<close> over ASCII characters. Every
  exception the parsers can raise is a value of \<open>error\<close>; a function that can raise
  returns \<open>error + 'a\<close> with \<open>Inl\<close> for the exception.
\<close>

datatype error = IndexError | ValueError | KeyError | FileNotFoundError

definition backslash :: char where
  "backslash = CHR 0x5C"

definition newline :: char where
  "newline = CHR 0x0A"

definition space :: char where
  "space = CHR '' ''"

subsection \<open>Slicing, strip, replace, join, split\<close>

text \<open>\<^verbatim>\<open>s[i:j]\<close> for \<open>0 \<le> i \<le> j\<close>: the slice is clipped to the string, it never raises.\<close>

definition py_slice :: "nat \<Rightarrow> nat \<Rightarrow> 'a list \<Rightarrow> 'a list" where
  "py_slice i j s = take (j - i) (drop i s)"

text \<open>The ASCII characters that \<^verbatim>\<open>str.strip()\<close> removes (\<^verbatim>\<open>str.isspace\<close>).\<close>

definition str_isspace :: "char \<Rightarrow> bool" where
  "str_isspace c = (c \<in> set [CHR 0x09, CHR 0x0A, CHR 0x0B, CHR 0x0C, CHR 0x0D,
                              CHR 0x1C, CHR 0x1D, CHR 0x1E, CHR 0x1F, CHR 0x20])"

definition py_strip :: "string \<Rightarrow> string" where
  "py_strip s = dropWhile str_isspace (rev (dropWhile str_isspace (rev s)))"

text \<open>\<^verbatim>\<open>s.replace(c, "")\<close> for a one-character string \<open>c\<close>.\<close>

definition str_remove :: "char \<Rightarrow> string \<Rightarrow> string" where
  "str_remove c s = filter (\<lambda>x. x \<noteq> c) s"

text \<open>\<^verbatim>\<open>sep.join(xs)\<close>.\<close>

fun str_join :: "string \<Rightarrow> string list \<Rightarrow> string" where
  "str_join sep [] = []"
| "str_join sep [x] = x"
| "str_join sep (x # y # xs) = x @ sep @ str_join sep (y # xs)"

text \<open>
  \<^verbatim>\<open>s.split(sep)\<close> for a non-empty separator: the occurrences of \<open>sep\<close> are found from
  the left and do not overlap; \<open>cur\<close> holds, reversed, the characters of the piece being
  read. The result always has at least one element. (The parsers only call it with the
  constant separators \<^verbatim>\<open>"\\\\"\<close>, \<^verbatim>\<open>"\\"\<close> and \<^verbatim>\<open>","\<close>.)
\<close>

function split_from :: "string \<Rightarrow> string \<Rightarrow> string \<Rightarrow> string list" where
  "split_from sep cur [] = [rev cur]"
| "split_from sep cur (c # cs) =
     (if sep \<noteq> [] \<and> take (length sep) (c # cs) = sep
      then rev cur # split_from sep [] (drop (length sep) (c # cs))
      else split_from sep (c # cur) cs)"
  by pat_completeness auto
termination
  by (relation "measure (\<lambda>(sep, cur, s). length s)") auto

definition str_split :: "string \<Rightarrow> string \<Rightarrow> string list" where
  "str_split sep s = split_from sep [] s"

subsection \<open>\<^verbatim>\<open>float(str)\<close>\<close>

text \<open>
  \<^verbatim>\<open>float\<close> accepts, after removing leading and trailing whitespace, an optional sign
  followed by \<^verbatim>\<open>inf\<close>, \<^verbatim>\<open>infinity\<close> or \<^verbatim>\<open>nan\<close> in any case, or by a decimal number
  \<^verbatim>\<open>[digitpart] "." digitpart | digitpart ["."]\<close> with an optional exponent
  \<^verbatim>\<open>("e" | "E") [sign] digitpart\<close>, where a digitpart is a run of digits with single
  underscores allowed between digits. Any other string raises \<^verbatim>\<open>ValueError\<close>
  (\<open>None\<close> here). The value of a decimal number is kept as the exact rational it denotes;
  the rounding to a binary64 double is not modelled, and plays no part below (which
  strings are accepted does not depend on it, and \<open>0\<close> and \<open>1\<close> are exact).
\<close>

datatype pyfloat = Finite rat | Infinity bool | NaN

fun negate :: "pyfloat \<Rightarrow> pyfloat" where
  "negate (Finite q) = Finite (- q)"
| "negate (Infinity neg) = Infinity (\<not> neg)"
| "negate NaN = NaN"

definition float_isspace :: "char \<Rightarrow> bool" where
  "float_isspace c = (c \<in> set [CHR 0x09, CHR 0x0A, CHR 0x0B, CHR 0x0C, CHR 0x0D, CHR 0x20])"

definition is_digit :: "char \<Rightarrow> bool" where
  "is_digit c = (c \<in> set ''0123456789'')"

definition is_upper :: "char \<Rightarrow> bool" where
  "is_upper c = (c \<in> set ''ABCDEFGHIJKLMNOPQRSTUVWXYZ'')"

definition is_lower :: "char \<Rightarrow> bool" where
  "is_lower c = (c \<in> set ''abcdefghijklmnopqrstuvwxyz'')"

definition ascii_lower :: "char \<Rightarrow> char" where
  "ascii_lower c = (if is_upper c then char_of (of_char c + (32::nat)) else c)"

definition digit_val :: "char \<Rightarrow> nat" where
  "digit_val c = of_char c - 48"

definition nat_of_digits :: "string \<Rightarrow> nat" where
  "nat_of_digits ds = foldl (\<lambda>n c. 10 * n + digit_val c) 0 ds"

text \<open>The rest of a digitpart after one of its digits: the digits read and what follows.\<close>

fun digits_rest :: "string \<Rightarrow> string \<times> string" where
  "digits_rest [] = ([], [])"
| "digits_rest [c] = (if is_digit c then ([c], []) else ([], [c]))"
| "digits_rest (c # d # cs) =
     (if is_digit c then (case digits_rest (d # cs) of (ds, r) \<Rightarrow> (c # ds, r))
      else if c = CHR ''_'' \<and> is_digit d then (case digits_rest cs of (ds, r) \<Rightarrow> (d # ds, r))
      else ([], c # d # cs))"

text \<open>The longest digitpart at the head of a string (no digits when there is none).\<close>

definition digitpart :: "string \<Rightarrow> string \<times> string" where
  "digitpart s =
     (case s of
        [] \<Rightarrow> ([], [])
      | c # cs \<Rightarrow> if is_digit c then (case digits_rest cs of (ds, r) \<Rightarrow> (c # ds, r)) else ([], s))"

text \<open>What follows the number: nothing, or an exponent that reaches the end of the string.\<close>

definition signed_digits :: "string \<Rightarrow> int option" where
  "signed_digits s =
     (case digitpart s of
        (ds, r) \<Rightarrow> if ds \<noteq> [] \<and> r = [] then Some (int (nat_of_digits ds)) else None)"

definition parse_exponent :: "string \<Rightarrow> int option" where
  "parse_exponent s =
     (case s of
        [] \<Rightarrow> Some 0
      | c # cs \<Rightarrow>
          if c = CHR ''e'' \<or> c = CHR ''E'' then
            (case cs of
               [] \<Rightarrow> None
             | d # ds \<Rightarrow>
                 if d = CHR ''+'' then signed_digits ds
                 else if d = CHR ''-'' then map_option uminus (signed_digits ds)
                 else signed_digits cs)
          else None)"

definition decimal_value :: "string \<Rightarrow> string \<Rightarrow> int \<Rightarrow> rat" where
  "decimal_value ip fp e =
     (let m = nat_of_digits (ip @ fp); k = e - int (length fp)
      in if 0 \<le> k then of_nat m * 10 ^ nat k else of_nat m / 10 ^ nat (- k))"

definition float_number :: "string \<Rightarrow> pyfloat option" where
  "float_number s =
     (case digitpart s of
        (ip, r1) \<Rightarrow>
          (case r1 of
             [] \<Rightarrow> if ip = [] then None else Some (Finite (decimal_value ip [] 0))
           | c # r1' \<Rightarrow>
               if c = CHR ''.'' then
                 (case digitpart r1' of
                    (fp, r2) \<Rightarrow>
                      if ip = [] \<and> fp = [] then None
                      else map_option (\<lambda>e. Finite (decimal_value ip fp e)) (parse_exponent r2))
               else if ip = [] then None
               else map_option (\<lambda>e. Finite (decimal_value ip [] e)) (parse_exponent r1)))"

definition float_abs :: "string \<Rightarrow> pyfloat option" where
  "float_abs s =
     (let l = map ascii_lower s
      in if l = ''inf'' \<or> l = ''infinity'' then Some (Infinity False)
         else if l = ''nan'' then Some NaN
         else float_number s)"

definition float_strip :: "string \<Rightarrow> string" where
  "float_strip s = rev (dropWhile float_isspace (rev (dropWhile float_isspace s)))"

definition py_float :: "string \<Rightarrow> pyfloat option" where
  "py_float s =
     (case float_strip s of
        [] \<Rightarrow> None
      | c # cs \<Rightarrow>
          if c = CHR ''+'' then float_abs cs
          else if c = CHR ''-'' then map_option negate (float_abs cs)
          else float_abs (c # cs))"

text \<open>\<^verbatim>\<open>float(s)\<close> as the parsers call it: \<^verbatim>\<open>ValueError\<close> when the string is refused.\<close>

definition to_float :: "string \<Rightarrow> error + pyfloat" where
  "to_float s = (case py_float s of None \<Rightarrow> Inl ValueError | Some v \<Rightarrow> Inr v)"

section \<open>The parsers of \<^verbatim>\<open>parsing.py\<close>\<close>

text \<open>
  Each parser returns a list of rows \<^verbatim>\<open>[name, x, y, z]\<close>. A parser is modelled on the
  list \<^verbatim>\<open>lines\<close> that \<^verbatim>\<open>f.readlines()\<close> gives it (every line keeps its line
  terminator); opening the file is done by the caller, \<open>make_molecule_from_file\<close> below.
\<close>

type_synonym row = "string \<times> pyfloat \<times> pyfloat \<times> pyfloat"

subsection \<open>The fixed-column body shared by the xyz and the com loop\<close>

text \<open>
  The bodies of the loops of \<^verbatim>\<open>parse_geom_from_xyz\<close> and \<^verbatim>\<open>parse_geom_from_com\<close> are
  the same four assignments:
  \<^verbatim>\<open>name = line[:2].strip(); x = float(line[2:17]); y = float(line[18:32]); z = float(line[33:47])\<close>.
  Nothing in them looks at the length of the line.
\<close>

definition fixed_columns :: "string \<Rightarrow> error + row" where
  "fixed_columns line =
     (let name = py_strip (py_slice 0 2 line)
      in case to_float (py_slice 2 17 line) of
           Inl e \<Rightarrow> Inl e
         | Inr x \<Rightarrow>
             (case to_float (py_slice 18 32 line) of
                Inl e \<Rightarrow> Inl e
              | Inr y \<Rightarrow>
                  (case to_float (py_slice 33 47 line) of
                     Inl e \<Rightarrow> Inl e
                   | Inr z \<Rightarrow> Inr (name, x, y, z))))"

text \<open>
  \<^verbatim>\<open>for line in ...: ...; atoms.append([name, x, y, z])\<close>: there is no \<^verbatim>\<open>try\<close>, so the
  first exception leaves the loop and the function.
\<close>

fun columns_loop :: "string list \<Rightarrow> row list \<Rightarrow> error + row list" where
  "columns_loop [] atoms = Inr atoms"
| "columns_loop (line # rest) atoms =
     (case fixed_columns line of
        Inl e \<Rightarrow> Inl e
      | Inr a \<Rightarrow> columns_loop rest (atoms @ [a]))"

subsection \<open>\<^verbatim>\<open>parse_geom_from_xyz\<close>\<close>

definition parse_geom_from_xyz :: "string list \<Rightarrow> error + row list" where
  "parse_geom_from_xyz lines = columns_loop (drop 2 lines) []"

subsection \<open>\<^verbatim>\<open>parse_geom_from_com\<close>\<close>

text \<open>
  \<^verbatim>\<open>re.findall\<close> for the pattern \<^verbatim>\<open>[A-Za-z]{1,2} +[-.\d ]+\<close>. A match is tried at every
  position from the left; after a match the search goes on behind it. At one position the
  greedy \<^verbatim>\<open>{1,2}\<close> tries two letters before one; the greedy \<^verbatim>\<open> +\<close> takes all the
  spaces and gives them back one at a time until the class \<^verbatim>\<open>[-.\d ]+\<close> finds a character.
\<close>

definition is_alpha :: "char \<Rightarrow> bool" where
  "is_alpha c = (is_upper c \<or> is_lower c)"

definition in_class :: "char \<Rightarrow> bool" where
  "in_class c = (c = CHR ''-'' \<or> c = CHR ''.'' \<or> is_digit c \<or> c = space)"

text \<open>\<^verbatim>\<open> +[-.\d ]+\<close> at the head of \<open>r\<close> with at most \<open>j\<close> spaces for \<^verbatim>\<open> +\<close>: the length matched.\<close>

fun spaces_then_class :: "string \<Rightarrow> nat \<Rightarrow> nat option" where
  "spaces_then_class r 0 = None"
| "spaces_then_class r (Suc j) =
     (let run = takeWhile in_class (drop (Suc j) r)
      in if run \<noteq> [] then Some (Suc j + length run) else spaces_then_class r j)"

definition match_tail :: "string \<Rightarrow> nat option" where
  "match_tail r = spaces_then_class r (length (takeWhile (\<lambda>c. c = space) r))"

definition letters_then :: "nat \<Rightarrow> string \<Rightarrow> nat option" where
  "letters_then k s =
     (if k \<le> length s \<and> list_all is_alpha (take k s)
      then map_option (\<lambda>n. k + n) (match_tail (drop k s))
      else None)"

text \<open>The length of the match of the whole pattern at the head of \<open>s\<close>, if there is one.\<close>

definition match_at :: "string \<Rightarrow> nat option" where
  "match_at s = (case letters_then 2 s of Some n \<Rightarrow> Some n | None \<Rightarrow> letters_then 1 s)"

function re_findall :: "string \<Rightarrow> string list" where
  "re_findall [] = []"
| "re_findall (c # cs) =
     (case match_at (c # cs) of
        Some n \<Rightarrow> take n (c # cs) # re_findall (drop n (c # cs))
      | None \<Rightarrow> re_findall cs)"
  by pat_completeness auto
termination
  by (relation "measure length")
     (auto simp: match_at_def letters_then_def split: option.splits if_splits)

definition parse_geom_from_com :: "string list \<Rightarrow> error + row list" where
  "parse_geom_from_com lines =
     (let matches = re_findall (str_join [newline] lines)
      in columns_loop matches [])"

subsection \<open>\<^verbatim>\<open>parse_geom_from_log\<close>\<close>

text \<open>\<^verbatim>\<open>a[i]\<close> for \<open>i \<ge> 0\<close>: \<^verbatim>\<open>IndexError\<close> out of range.\<close>

definition py_index :: "'a list \<Rightarrow> nat \<Rightarrow> error + 'a" where
  "py_index a i = (if i < length a then Inr (a ! i) else Inl IndexError)"

text \<open>
  The body of the \<^verbatim>\<open>try\<close> block, statement by statement:
  \<^verbatim>\<open>a = entry.split(","); name = a[0]; x = float(a[1]); y = float(a[2]); z = float(a[3])\<close>.
  The first statement that raises decides the exception.
\<close>

definition log_entry :: "string \<Rightarrow> error + row" where
  "log_entry entry =
     (let a = str_split '','' entry
      in case py_index a 0 of
           Inl e \<Rightarrow> Inl e
         | Inr name \<Rightarrow>
             (case py_index a 1 of
                Inl e \<Rightarrow> Inl e
              | Inr s1 \<Rightarrow>
                  (case to_float s1 of
                     Inl e \<Rightarrow> Inl e
                   | Inr x \<Rightarrow>
                       (case py_index a 2 of
                          Inl e \<Rightarrow> Inl e
                        | Inr s2 \<Rightarrow>
                            (case to_float s2 of
                               Inl e \<Rightarrow> Inl e
                             | Inr y \<Rightarrow>
                                 (case py_index a 3 of
                                    Inl e \<Rightarrow> Inl e
                                  | Inr s3 \<Rightarrow>
                                      (case to_float s3 of
                                         Inl e \<Rightarrow> Inl e
                                       | Inr z \<Rightarrow> Inr (name, x, y, z))))))))"

text \<open>
  The loop over \<^verbatim>\<open>data\<close>: \<^verbatim>\<open>except IndexError\<close> prints a message and goes on with the
  next entry; any other exception is not caught and leaves the function. The printed
  message is not part of the returned value and is not modelled.
\<close>

fun log_loop :: "string list \<Rightarrow> row list \<Rightarrow> error + row list" where
  "log_loop [] molecule = Inr molecule"
| "log_loop (entry # rest) molecule =
     (case log_entry entry of
        Inr new_entry \<Rightarrow> log_loop rest (molecule @ [new_entry])
      | Inl e \<Rightarrow> if e = IndexError then log_loop rest molecule else Inl e)"

definition result_string :: "string list \<Rightarrow> string" where
  "result_string lines =
     concat (map (\<lambda>line. str_remove space (str_remove newline line))
                 (filter (\<lambda>line. backslash \<in> set line) lines))"

definition log_chunks :: "string list \<Rightarrow> string list" where
  "log_chunks lines = str_split [backslash, backslash] (result_string lines)"

definition parse_geom_from_log :: "string list \<Rightarrow> error + row list" where
  "parse_geom_from_log lines =
     (let chunks = log_chunks lines
      in case py_index chunks 3 of
           Inl e \<Rightarrow> Inl e
         | Inr chunk \<Rightarrow>
             (let data = drop 1 (str_split [backslash] chunk)
              in log_loop data []))"

section \<open>\<^verbatim>\<open>make_molecule_from_file\<close> of \<^verbatim>\<open>main.py\<close>\<close>

text \<open>
  Modelled from the spec: the classes \<^verbatim>\<open>Atom\<close> and \<^verbatim>\<open>Molecule\<close> of \<^verbatim>\<open>classes.py\<close>,
  which is not among the sources; an atom is a symbol with a position, a molecule a name
  with its atoms in order.
\<close>

record atom =
  symbol :: string
  position :: "pyfloat \<times> pyfloat \<times> pyfloat"

record molecule =
  name :: string
  atoms :: "atom list"

text \<open>The dictionary from extension to parser.\<close>

definition parsing_dict :: "string \<rightharpoonup> (string list \<Rightarrow> error + row list)" where
  "parsing_dict =
     [''log'' \<mapsto> parse_geom_from_log, ''xyz'' \<mapsto> parse_geom_from_xyz,
      ''com'' \<mapsto> parse_geom_from_com]"

text \<open>\<^verbatim>\<open>s.index(c)\<close>: the position of the first \<open>c\<close>, \<^verbatim>\<open>ValueError\<close> when there is none.\<close>

fun str_index :: "string \<Rightarrow> char \<Rightarrow> error + nat" where
  "str_index [] c = Inl ValueError"
| "str_index (x # xs) c =
     (if x = c then Inr 0
      else case str_index xs c of Inl e \<Rightarrow> Inl e | Inr i \<Rightarrow> Inr (Suc i))"

text \<open>
  \<^verbatim>\<open>parsing_dict[file[file.index(".") + 1:]]\<close>: the key is what follows the first dot of
  the path.
\<close>

definition select_parser :: "string \<Rightarrow> error + (string list \<Rightarrow> error + row list)" where
  "select_parser file =
     (case str_index file (CHR ''.'') of
        Inl e \<Rightarrow> Inl e
      | Inr i \<Rightarrow>
          (case parsing_dict (drop (i + 1) file) of
             None \<Rightarrow> Inl KeyError
           | Some parser \<Rightarrow> Inr parser))"

text \<open>
  The file system is a map from paths to the lines of the file there; the parser chosen
  opens the file itself, which fails when there is none.
\<close>

definition make_molecule_from_file ::
  "(string \<rightharpoonup> string list) \<Rightarrow> string \<Rightarrow> string \<Rightarrow> error + molecule" where
  "make_molecule_from_file fs file directory =
     (case select_parser file of
        Inl e \<Rightarrow> Inl e
      | Inr parser \<Rightarrow>
          (case fs file of
             None \<Rightarrow> Inl FileNotFoundError
           | Some lines \<Rightarrow>
               (case parser lines of
                  Inl e \<Rightarrow> Inl e
                | Inr name_xyz \<Rightarrow>
                    Inr \<lparr>name = drop (length directory) file,
                         atoms = map (\<lambda>(s, x, y, z). \<lparr>symbol = s, position = (x, y, z)\<rparr>)
                                     name_xyz\<rparr>)))"

section \<open>The statements of the specification\<close>

text \<open>
  The definitions of this section follow the wording of the specification, to be compared
  with the parsers above.
\<close>

subsection \<open>The fixed-column contract\<close>

text \<open>
  The three coordinate slices at offsets \<open>[2,17)\<close>, \<open>[18,32)\<close> and \<open>[33,47)\<close> all parse as
  floating-point numbers.
\<close>

definition columns_ok :: "string \<Rightarrow> bool" where
  "columns_ok line =
     (py_float (py_slice 2 17 line) \<noteq> None \<and> py_float (py_slice 18 32 line) \<noteq> None \<and>
      py_float (py_slice 33 47 line) \<noteq> None)"

text \<open>The symbol at offset \<open>[0,2)\<close>, trimmed, with the three numbers of the slices.\<close>

definition columns_row :: "string \<Rightarrow> row" where
  "columns_row line =
     (py_strip (py_slice 0 2 line), the (py_float (py_slice 2 17 line)),
      the (py_float (py_slice 18 32 line)), the (py_float (py_slice 33 47 line)))"

text \<open>\<^verbatim>\<open>s.ljust(n)\<close> and \<^verbatim>\<open>s.rjust(n)\<close>, which pad with spaces and never shorten.\<close>

definition ljust :: "nat \<Rightarrow> string \<Rightarrow> string" where
  "ljust n s = s @ replicate (n - length s) space"

definition rjust :: "nat \<Rightarrow> string \<Rightarrow> string" where
  "rjust n s = replicate (n - length s) space @ s"

text \<open>
  The line of the round-trip property, with one \<open>pad\<close> in its three places:
  \<^verbatim>\<open>symbol.ljust(2) + pad + x.rjust(15) + pad + y.rjust(14) + pad + z.rjust(14)\<close>.
\<close>

definition padded_line :: "string \<Rightarrow> string \<Rightarrow> string \<Rightarrow> string \<Rightarrow> string \<Rightarrow> string" where
  "padded_line smb pad x y z = ljust 2 smb @ pad @ rjust 15 x @ pad @ rjust 14 y @ pad @ rjust 14 z"

text \<open>
  The line laid out on the offsets of the reader: the symbol in columns 0 and 1, \<open>x\<close> in
  the next 15 columns, one character \<open>g1\<close> in column 17, \<open>y\<close> in 14 columns, one character
  \<open>g2\<close> in column 32, \<open>z\<close> in 14 columns.
\<close>

definition column_line :: "string \<Rightarrow> string \<Rightarrow> char \<Rightarrow> string \<Rightarrow> char \<Rightarrow> string \<Rightarrow> string" where
  "column_line smb x g1 y g2 z = ljust 2 smb @ rjust 15 x @ [g1] @ rjust 14 y @ [g2] @ rjust 14 z"

subsection \<open>The archive of a log file\<close>

text \<open>
  The lines containing a backslash, concatenated with newlines and spaces removed; its
  chunks between double backslashes; the elements of chunk 3 between single backslashes,
  without the first one.
\<close>

definition archive_text :: "string list \<Rightarrow> string" where
  "archive_text lines =
     concat (map (filter (\<lambda>c. c \<noteq> newline \<and> c \<noteq> space))
                 (filter (\<lambda>line. backslash \<in> set line) lines))"

definition archive_chunks :: "string list \<Rightarrow> string list" where
  "archive_chunks lines = str_split [backslash, backslash] (archive_text lines)"

definition archive_records :: "string list \<Rightarrow> string list" where
  "archive_records lines = tl (str_split [backslash] (archive_chunks lines ! 3))"

text \<open>
  A record \<^verbatim>\<open>symbol,x,y,z\<close>: at least 4 comma-separated fields, of which fields 1 to 3
  parse as floating-point numbers; a record with a field error of the second kind has,
  among its fields 1 to 3, one that is present and does not parse.
\<close>

definition record_fields :: "string \<Rightarrow> string list" where
  "record_fields r = str_split '','' r"

definition record_ok :: "string \<Rightarrow> bool" where
  "record_ok r =
     (4 \<le> length (record_fields r) \<and>
      list_all (\<lambda>i. py_float (record_fields r ! i) \<noteq> None) [1, 2, 3])"

definition record_bad_number :: "string \<Rightarrow> bool" where
  "record_bad_number r =
     list_ex (\<lambda>i. i < length (record_fields r) \<and> py_float (record_fields r ! i) = None)
             [1, 2, 3]"

definition record_row :: "string \<Rightarrow> row" where
  "record_row r =
     (record_fields r ! 0, the (py_float (record_fields r ! 1)),
      the (py_float (record_fields r ! 2)), the (py_float (record_fields r ! 3)))"

subsection \<open>The xyz parser as specified\<close>

text \<open>
  A line is empty when nothing but its terminator is on it. The specification reads the
  non-empty lines after the first two, and only those.
\<close>

definition empty_line :: "string \<Rightarrow> bool" where
  "empty_line line = (str_remove newline line = [])"

definition xyz_as_specified :: "string list \<Rightarrow> error + row list" where
  "xyz_as_specified lines = columns_loop (filter (\<lambda>line. \<not> empty_line line) (drop 2 lines)) []"

subsection \<open>The candidate matches of a com file\<close>

definition com_matches :: "string list \<Rightarrow> string list" where
  "com_matches lines = re_findall (str_join [newline] lines)"

section \<open>Example files\<close>

text \<open>A log file whose archive block is wrapped over two lines, after a line of other text.\<close>

definition property_chunk :: string where
  "property_chunk =
     ''0,1'' @ [backslash] @ ''C,0.0,0.0,0.0'' @ [backslash] @ ''H,1.0,0.0,0.0''"

definition example_log :: "string list" where
  "example_log =
     ['' Optimization completed.'' @ [newline],
      '' 1'' @ [backslash] @ ''1'' @ [backslash] @ ''GINC'' @ [backslash] @ ''FOpt'' @
        [backslash, backslash] @ ''# opt'' @ [backslash, backslash] @ ''ti tle'' @
        [backslash, backslash] @ ''0,1'' @ [backslash] @ ''C,0.0,0.0,0.0'' @ [backslash] @
        ''H,1.'' @ [newline],
      '' 0,0.0,0.0'' @ [backslash, backslash] @ ''Version=1'' @ [backslash] @ ''@'' @ [newline]]"

text \<open>An archive of two chunks, and one whose chunk 3 is the charge and multiplicity alone.\<close>

definition short_log :: "string list" where
  "short_log = [''1'' @ [backslash, backslash] @ ''#opt'' @ [newline]]"

definition no_records_log :: "string list" where
  "no_records_log =
     [''1'' @ [backslash, backslash] @ ''#opt'' @ [backslash, backslash] @ ''title'' @
      [backslash, backslash] @ ''0,1'' @ [backslash, backslash] @ ''@'' @ [newline]]"

text \<open>
  An archive whose first record has a field that is no number, and one whose first record
  has three fields and whose last record is empty.
\<close>

definition bad_number_log :: "string list" where
  "bad_number_log =
     [''1'' @ [backslash, backslash] @ ''#opt'' @ [backslash, backslash] @ ''title'' @
      [backslash, backslash] @ ''0,1'' @ [backslash] @ ''C,abc,0.0,0.0'' @ [backslash] @
      ''H,1.0,0.0,0.0'' @ [backslash, backslash] @ ''@'' @ [newline]]"

definition partial_record_log :: "string list" where
  "partial_record_log =
     [''1'' @ [backslash, backslash] @ ''#opt'' @ [backslash, backslash] @ ''title'' @
      [backslash, backslash] @ ''0,1'' @ [backslash] @ ''C,1.0,0.0'' @ [backslash] @
      ''H,1.0,0.0,0.0'' @ [backslash] @ [newline]]"

text \<open>Atom lines laid out on the columns of the reader, and a line of 36 characters.\<close>

definition atom_line_C :: string where
  "atom_line_C = column_line ''C'' ''0.000000'' (CHR '' '') ''0.000000'' (CHR '' '') ''0.000000''"

definition atom_line_H :: string where
  "atom_line_H = column_line ''H'' ''1.5'' (CHR '' '') ''0.0'' (CHR '' '') ''0.0''"

definition atom_line_Cl :: string where
  "atom_line_Cl = column_line ''Cl'' ''-0.5'' (CHR '' '') ''1.25'' (CHR '' '') ''0.0''"

definition short_line :: string where
  "short_line = ''H '' @ rjust 15 ''1.0'' @ '' '' @ rjust 14 ''2.0'' @ '' 3.0''"

text \<open>An xyz file of three atoms, and the same file followed by an empty line.\<close>

definition xyz_file :: "string list" where
  "xyz_file =
     [''3'' @ [newline], ''comment'' @ [newline], atom_line_C @ [newline],
      atom_line_H @ [newline], atom_line_Cl @ [newline]]"

definition blank_line :: string where
  "blank_line = [newline]"

definition xyz_file_blank :: "string list" where
  "xyz_file_blank = xyz_file @ [blank_line]"

text \<open>
  The com body of the pattern-tolerance property, the same body with its atom line laid
  out on the columns, and a body with a title line.
\<close>

definition route_line :: string where
  "route_line = ''# opt freq b3lyp/6-31g''"

definition free_atom_line :: string where
  "free_atom_line = ''C    0.000000   0.000000   0.000000''"

definition com_body :: "string list" where
  "com_body = [route_line @ [newline], free_atom_line @ [newline]]"

definition com_body_columns :: "string list" where
  "com_body_columns = [route_line @ [newline], atom_line_C @ [newline]]"

definition com_titled :: "string list" where
  "com_titled = [''Conformer 12'' @ [newline], atom_line_C @ [newline]]"

section \<open>The parsers in the terms of the specification\<close>

lemma py_float_Nil: "py_float [] = None"
  by (simp add: py_float_def float_strip_def)

lemma py_float_empty_slice: "length line \<le> 33 \<Longrightarrow> py_float (py_slice 33 47 line) = None"
  by (simp add: py_slice_def py_float_Nil)

lemma fixed_columns_eq:
  "fixed_columns line = (if columns_ok line then Inr (columns_row line) else Inl ValueError)"
  by (auto simp: fixed_columns_def columns_ok_def columns_row_def to_float_def
           split: option.splits)

lemma columns_loop_eq:
  "columns_loop ls acc =
     (if list_all columns_ok ls then Inr (acc @ map columns_row ls) else Inl ValueError)"
  by (induction ls arbitrary: acc) (auto simp: fixed_columns_eq)

lemma log_entry_eq:
  "log_entry r =
     (if record_bad_number r then Inl ValueError
      else if record_ok r then Inr (record_row r) else Inl IndexError)"
  by (auto simp: log_entry_def py_index_def to_float_def Let_def record_bad_number_def
                 record_ok_def record_row_def record_fields_def
           split: option.splits)

lemma log_loop_eq:
  "log_loop data acc =
     (if list_ex record_bad_number data then Inl ValueError
      else Inr (acc @ map record_row (filter record_ok data)))"
  by (induction data arbitrary: acc) (auto simp: log_entry_eq)

lemma result_string_eq: "result_string lines = archive_text lines"
proof -
  have "str_remove space (str_remove newline l) = filter (\<lambda>c. c \<noteq> newline \<and> c \<noteq> space) l"
    for l
    by (induction l) (auto simp: str_remove_def)
  then show ?thesis
    by (simp add: result_string_def archive_text_def)
qed

lemma log_chunks_eq: "log_chunks lines = archive_chunks lines"
  by (simp add: log_chunks_def archive_chunks_def result_string_eq)

lemma parse_geom_from_log_eq:
  "parse_geom_from_log lines =
     (if length (archive_chunks lines) < 4 then Inl IndexError
      else if list_ex record_bad_number (archive_records lines) then Inl ValueError
      else Inr (map record_row (filter record_ok (archive_records lines))))"
  by (simp add: parse_geom_from_log_def log_chunks_eq py_index_def log_loop_eq
                archive_records_def drop_Suc Let_def)

lemma ok_not_bad: "record_ok r \<Longrightarrow> \<not> record_bad_number r"
  by (auto simp: record_ok_def record_bad_number_def)

lemma float_strip_pad: "float_strip (replicate n space @ s) = float_strip s"
  by (induction n) (auto simp: float_strip_def float_isspace_def space_def)

lemma py_float_rjust: "py_float (rjust n s) = py_float s"
  by (simp add: rjust_def py_float_def float_strip_pad)

lemma py_strip_ljust: "py_strip (ljust n s) = py_strip s"
proof -
  have "dropWhile str_isspace (replicate k space @ t) = dropWhile str_isspace t" for k t
    by (induction k) (auto simp: str_isspace_def space_def)
  then show ?thesis
    by (simp add: py_strip_def ljust_def)
qed

lemma length_ljust: "length s \<le> n \<Longrightarrow> length (ljust n s) = n"
  by (simp add: ljust_def)

lemma length_rjust: "length s \<le> n \<Longrightarrow> length (rjust n s) = n"
  by (simp add: rjust_def)

lemma column_line_slices:
  assumes "length smb \<le> 2" "length x \<le> 15" "length y \<le> 14" "length z \<le> 14"
  shows "py_slice 0 2 (column_line smb x g1 y g2 z) = ljust 2 smb"
    and "py_slice 2 17 (column_line smb x g1 y g2 z) = rjust 15 x"
    and "py_slice 18 32 (column_line smb x g1 y g2 z) = rjust 14 y"
    and "py_slice 33 47 (column_line smb x g1 y g2 z) = rjust 14 z"
  using assms by (simp_all add: py_slice_def column_line_def length_ljust length_rjust)

lemma float_strip_blank:
  assumes "\<forall>c\<in>set s. float_isspace c"
  shows "float_strip s = []"
proof -
  have h: "dropWhile float_isspace s = []"
    using assms by (induction s) auto
  show ?thesis
    unfolding float_strip_def h by simp
qed

lemma empty_line_not_ok:
  assumes "empty_line l"
  shows "\<not> columns_ok l"
proof -
  have "\<forall>c\<in>set l. c = newline"
    using assms by (simp add: empty_line_def str_remove_def filter_empty_conv)
  moreover have "set (py_slice 2 17 l) \<subseteq> set l"
    unfolding py_slice_def by (meson set_take_subset set_drop_subset subset_trans)
  ultimately have "\<forall>c\<in>set (py_slice 2 17 l). float_isspace c"
    by (auto simp: float_isspace_def newline_def)
  then have "float_strip (py_slice 2 17 l) = []"
    by (rule float_strip_blank)
  then show ?thesis
    by (simp add: columns_ok_def py_float_def)
qed

lemma chunk_records:
  "tl (str_split [backslash] property_chunk) = [''C,0.0,0.0,0.0'', ''H,1.0,0.0,0.0'']"
  by code_simp

lemma record_C:
  "record_ok ''C,0.0,0.0,0.0'' \<and>
   record_row ''C,0.0,0.0,0.0'' = (''C'', Finite 0, Finite 0, Finite 0)"
  by code_simp

lemma record_H:
  "record_ok ''H,1.0,0.0,0.0'' \<and>
   record_row ''H,1.0,0.0,0.0'' = (''H'', Finite 1, Finite 0, Finite 0)"
  by code_simp

lemma str_index_append: "c \<notin> set base \<Longrightarrow> str_index (base @ c # ext) c = Inr (length base)"
  by (induction base) auto

text \<open>A path with one dot, before a known extension, reaches the parser of the extension.\<close>

lemma select_parser_single_dot:
  assumes "CHR ''.'' \<notin> set base"
  shows "select_parser (base @ ''.log'') = Inr parse_geom_from_log"
    and "select_parser (base @ ''.xyz'') = Inr parse_geom_from_xyz"
    and "select_parser (base @ ''.com'') = Inr parse_geom_from_com"
  using assms by (simp_all add: select_parser_def str_index_append parsing_dict_def)

section \<open>The claims\<close>

subsection \<open>C1: a bad match in a com file\<close>

text \<open>
  C1 says that a candidate match whose slices are too short or do not parse is skipped and
  that the parse of the com file still succeeds with the other matches. The loop of
  \<open>parse_geom_from_com\<close> has no \<^verbatim>\<open>try\<close>: in the body \<open>com_titled\<close> the title line gives the
  match \<^verbatim>\<open>er 12\<close>, which the reader refuses, and the parse ends with \<^verbatim>\<open>ValueError\<close>
  although the atom line behind it reads well.
\<close>

theorem com_bad_match_counterexample:
  "com_matches com_titled = [''er 12'', atom_line_C] \<and>
   fixed_columns ''er 12'' = Inl ValueError \<and>
   fixed_columns atom_line_C = Inr (''C'', Finite 0, Finite 0, Finite 0) \<and>
   parse_geom_from_com com_titled = Inl ValueError"
  by code_simp

text \<open>
  C1, amended: for every com input the parse succeeds exactly when the fixed-offset slices
  of every candidate match parse as floating-point numbers, and it then returns the rows
  of all the matches in order of appearance; otherwise it raises \<^verbatim>\<open>ValueError\<close>.
\<close>

theorem com_all_or_abort:
  "parse_geom_from_com lines =
     (if list_all columns_ok (com_matches lines) then Inr (map columns_row (com_matches lines))
      else Inl ValueError)"
  by (simp add: parse_geom_from_com_def com_matches_def columns_loop_eq Let_def)

theorem com_all_or_abort_witness:
  "com_matches com_body_columns = [atom_line_C] \<and>
   parse_geom_from_com com_body_columns = Inr [(''C'', Finite 0, Finite 0, Finite 0)] \<and>
   \<not> list_all columns_ok (com_matches com_titled) \<and>
   parse_geom_from_com com_titled = Inl ValueError"
proof -
  have a: "com_matches com_body_columns = [atom_line_C]" by code_simp
  have b: "columns_ok atom_line_C" by code_simp
  have c: "columns_row atom_line_C = (''C'', Finite 0, Finite 0, Finite 0)" by code_simp
  have d: "\<not> list_all columns_ok (com_matches com_titled)" by code_simp
  from com_all_or_abort [of com_body_columns] com_all_or_abort [of com_titled] a b c d
  show ?thesis by simp
qed

subsection \<open>C2: the chunk of a log file that holds the geometry\<close>

text \<open>
  C2: for every log input the parser keeps the lines containing a backslash, concatenates
  them with newlines and spaces removed, splits the result on the double backslash, takes
  chunk 3, splits it on single backslashes without the first element and reads each
  remaining element as a record \<^verbatim>\<open>symbol,x,y,z\<close>; in particular an archive of exactly
  5 chunks whose chunk 3 is \<open>property_chunk\<close> gives the atoms C at (0,0,0) and H at
  (1,0,0), in that order.
\<close>

theorem log_chunk_selection:
  "(4 \<le> length (archive_chunks lines) \<and> list_all record_ok (archive_records lines) \<longrightarrow>
      parse_geom_from_log lines = Inr (map record_row (archive_records lines))) \<and>
   (archive_chunks lines = [s0, s1, s2, property_chunk, s4] \<longrightarrow>
      parse_geom_from_log lines =
        Inr [(''C'', Finite 0, Finite 0, Finite 0), (''H'', Finite 1, Finite 0, Finite 0)])"
proof (intro conjI impI)
  assume a: "4 \<le> length (archive_chunks lines) \<and> list_all record_ok (archive_records lines)"
  then have "\<not> list_ex record_bad_number (archive_records lines)"
    by (auto simp: list_all_iff list_ex_iff dest: ok_not_bad)
  moreover from a have "filter record_ok (archive_records lines) = archive_records lines"
    by (simp add: list_all_iff)
  ultimately show "parse_geom_from_log lines = Inr (map record_row (archive_records lines))"
    using a by (simp add: parse_geom_from_log_eq)
next
  assume c: "archive_chunks lines = [s0, s1, s2, property_chunk, s4]"
  then have r: "archive_records lines = [''C,0.0,0.0,0.0'', ''H,1.0,0.0,0.0'']"
    by (simp add: archive_records_def chunk_records)
  have "\<not> list_ex record_bad_number (archive_records lines)"
    unfolding r using record_C record_H by (auto dest: ok_not_bad)
  then show "parse_geom_from_log lines =
        Inr [(''C'', Finite 0, Finite 0, Finite 0), (''H'', Finite 1, Finite 0, Finite 0)]"
    using c record_C record_H by (simp add: parse_geom_from_log_eq r)
qed

theorem log_chunk_selection_witness:
  "4 \<le> length (archive_chunks example_log) \<and>
   list_all record_ok (archive_records example_log) \<and>
   archive_chunks example_log =
     [''1'' @ [backslash] @ ''1'' @ [backslash] @ ''GINC'' @ [backslash] @ ''FOpt'', ''#opt'',
      ''title'', property_chunk, ''Version=1'' @ [backslash] @ ''@''] \<and>
   map record_row (archive_records example_log) =
     [(''C'', Finite 0, Finite 0, Finite 0), (''H'', Finite 1, Finite 0, Finite 0)] \<and>
   parse_geom_from_log example_log =
     Inr [(''C'', Finite 0, Finite 0, Finite 0), (''H'', Finite 1, Finite 0, Finite 0)]"
proof -
  have c: "archive_chunks example_log =
     [''1'' @ [backslash] @ ''1'' @ [backslash] @ ''GINC'' @ [backslash] @ ''FOpt'', ''#opt'',
      ''title'', property_chunk, ''Version=1'' @ [backslash] @ ''@'']"
    by code_simp
  have l: "4 \<le> length (archive_chunks example_log)"
    by (simp add: c)
  have k: "list_all record_ok (archive_records example_log)"
    by code_simp
  have m: "map record_row (archive_records example_log) =
     [(''C'', Finite 0, Finite 0, Finite 0), (''H'', Finite 1, Finite 0, Finite 0)]"
    by code_simp
  from log_chunk_selection [of example_log] c l k m show ?thesis
    by simp
qed

subsection \<open>C3: the round trip through the fixed columns\<close>

text \<open>
  C3 says that the reader recovers the symbol and the numbers from the line
  \<^verbatim>\<open>symbol.ljust(2) + pad + x.rjust(15) + pad + y.rjust(14) + pad + z.rjust(14)\<close> for every
  pad. With a pad of one space the fields stand one, two and three columns to the right of
  the offsets of the reader, which loses the last digit of \<^verbatim>\<open>3.5\<close> and returns 3.
\<close>

theorem padded_line_counterexample:
  "fixed_columns (padded_line ''C'' '' '' ''1.0'' ''2.0'' ''3.5'') =
     Inr (''C'', Finite 1, Finite 2, Finite 3) \<and>
   py_float ''3.5'' = Some (Finite (7 / 2))"
  by code_simp

text \<open>
  C3, amended: for every symbol of at most 2 characters and all numbers written \<open>x\<close> in at
  most 15 and \<open>y\<close>, \<open>z\<close> in at most 14 characters, the reader applied to the line
  \<^verbatim>\<open>symbol.ljust(2) + x.rjust(15) + g1 + y.rjust(14) + g2 + z.rjust(14)\<close>, with nothing
  between the symbol and \<open>x\<close> and single characters \<open>g1\<close>, \<open>g2\<close> in columns 17 and 32,
  recovers the symbol (whitespace-trimmed) and the numbers that \<open>x\<close>, \<open>y\<close>, \<open>z\<close> denote.
\<close>

theorem fixed_column_round_trip:
  assumes "length smb \<le> 2" "length x \<le> 15" "length y \<le> 14" "length z \<le> 14"
    and "py_float x = Some vx" "py_float y = Some vy" "py_float z = Some vz"
  shows "fixed_columns (column_line smb x g1 y g2 z) = Inr (py_strip smb, vx, vy, vz)"
  using assms
  by (simp add: fixed_columns_def column_line_slices py_float_rjust py_strip_ljust to_float_def)

theorem fixed_column_round_trip_witness:
  "fixed_columns (column_line ''C'' ''1.5'' (CHR '' '') ''-2.25'' (CHR '' '') ''3.5'') =
     Inr (''C'', Finite (3 / 2), Finite (- 9 / 4), Finite (7 / 2))"
proof -
  have a: "py_float ''1.5'' = Some (Finite (3 / 2))" by code_simp
  have b: "py_float ''-2.25'' = Some (Finite (- 9 / 4))" by code_simp
  have c: "py_float ''3.5'' = Some (Finite (7 / 2))" by code_simp
  have d: "py_strip ''C'' = ''C''" by code_simp
  from fixed_column_round_trip [of "''C''" "''1.5''" "''-2.25''" "''3.5''", OF _ _ _ _ a b c] d
  show ?thesis by simp
qed

subsection \<open>C4: field errors in the records of a log file\<close>

text \<open>
  C4 says that a record with fewer than 4 fields and equally a record whose x, y or z
  field is no floating-point number are skipped. Only \<^verbatim>\<open>IndexError\<close> is caught: in
  \<open>bad_number_log\<close> the field \<^verbatim>\<open>abc\<close> of the first record raises \<^verbatim>\<open>ValueError\<close>, which ends
  the parse although the second record is well formed.
\<close>

theorem log_bad_number_counterexample:
  "archive_records bad_number_log = [''C,abc,0.0,0.0'', ''H,1.0,0.0,0.0''] \<and>
   py_float ''abc'' = None \<and> record_ok ''H,1.0,0.0,0.0'' \<and>
   parse_geom_from_log bad_number_log = Inl ValueError"
  by code_simp

text \<open>
  C4, amended: in the records of a log file with at least 4 chunks, a record with fewer
  than 4 comma-separated fields, of which those present among fields 1 to 3 parse as
  floating-point numbers, is skipped, and the parse returns the rows of the well-formed
  records in order; a record that has, among its fields 1 to 3, one that is present and
  does not parse ends the whole parse with \<^verbatim>\<open>ValueError\<close>.
\<close>

theorem log_records_skip_or_abort:
  "4 \<le> length (archive_chunks lines) \<Longrightarrow>
   parse_geom_from_log lines =
     (if list_ex record_bad_number (archive_records lines) then Inl ValueError
      else Inr (map record_row (filter record_ok (archive_records lines))))"
  by (simp add: parse_geom_from_log_eq)

theorem log_records_skip_or_abort_witness:
  "4 \<le> length (archive_chunks partial_record_log) \<and>
   archive_records partial_record_log = [''C,1.0,0.0'', ''H,1.0,0.0,0.0'', []] \<and>
   parse_geom_from_log partial_record_log = Inr [(''H'', Finite 1, Finite 0, Finite 0)]"
proof -
  have a: "4 \<le> length (archive_chunks partial_record_log)" by code_simp
  have b: "archive_records partial_record_log = [''C,1.0,0.0'', ''H,1.0,0.0,0.0'', []]"
    by code_simp
  have c: "\<not> list_ex record_bad_number (archive_records partial_record_log)" by code_simp
  have d: "map record_row (filter record_ok (archive_records partial_record_log)) =
             [(''H'', Finite 1, Finite 0, Finite 0)]"
    by code_simp
  from log_records_skip_or_abort [OF a] a b c d show ?thesis by simp
qed

subsection \<open>C5: the lines of an xyz file\<close>

text \<open>
  C5 says that the reader is applied to every non-empty line after the first two. The loop
  of \<open>parse_geom_from_xyz\<close> runs over every line after the first two: for the file
  \<open>xyz_file_blank\<close>, three atom lines followed by an empty line, reading the non-empty
  lines gives three atoms, while the parser raises \<^verbatim>\<open>ValueError\<close> on the empty line.
\<close>

theorem xyz_blank_line_counterexample:
  "xyz_as_specified xyz_file_blank =
     Inr [(''C'', Finite 0, Finite 0, Finite 0), (''H'', Finite (3 / 2), Finite 0, Finite 0),
          (''Cl'', Finite (- 1 / 2), Finite (5 / 4), Finite 0)] \<and>
   parse_geom_from_xyz xyz_file_blank = Inl ValueError"
  by code_simp

text \<open>
  C5, amended: for every xyz input the parser skips the first two lines unconditionally
  and applies the fixed-column reader to every remaining line, empty or not; when all of
  them keep the fixed-column contract it returns their rows in file order, so that a
  header line, a comment line and 3 well-formed atom lines give exactly 3 atoms; any
  remaining line that breaks the contract, an empty line included, ends the parse of the
  whole file with \<^verbatim>\<open>ValueError\<close>.
\<close>

theorem xyz_all_or_abort:
  "parse_geom_from_xyz lines =
     (if list_all columns_ok (drop 2 lines) then Inr (map columns_row (drop 2 lines))
      else Inl ValueError) \<and>
   (list_all columns_ok [l1, l2, l3] \<longrightarrow>
      parse_geom_from_xyz [header, comment, l1, l2, l3] =
        Inr [columns_row l1, columns_row l2, columns_row l3]) \<and>
   (list_ex empty_line (drop 2 lines) \<longrightarrow> parse_geom_from_xyz lines = Inl ValueError)"
proof (intro conjI impI)
  show "parse_geom_from_xyz lines =
     (if list_all columns_ok (drop 2 lines) then Inr (map columns_row (drop 2 lines))
      else Inl ValueError)"
    by (simp add: parse_geom_from_xyz_def columns_loop_eq)
next
  assume "list_all columns_ok [l1, l2, l3]"
  then show "parse_geom_from_xyz [header, comment, l1, l2, l3] =
        Inr [columns_row l1, columns_row l2, columns_row l3]"
    by (simp add: parse_geom_from_xyz_def columns_loop_eq)
next
  assume "list_ex empty_line (drop 2 lines)"
  then have "\<not> list_all columns_ok (drop 2 lines)"
    using empty_line_not_ok by (auto simp: list_all_iff list_ex_iff)
  then show "parse_geom_from_xyz lines = Inl ValueError"
    by (simp add: parse_geom_from_xyz_def columns_loop_eq)
qed

theorem xyz_all_or_abort_witness:
  "list_all columns_ok
     [atom_line_C @ [newline], atom_line_H @ [newline], atom_line_Cl @ [newline]] \<and>
   parse_geom_from_xyz xyz_file =
     Inr [(''C'', Finite 0, Finite 0, Finite 0), (''H'', Finite (3 / 2), Finite 0, Finite 0),
          (''Cl'', Finite (- 1 / 2), Finite (5 / 4), Finite 0)] \<and>
   list_ex empty_line (drop 2 xyz_file_blank) \<and>
   parse_geom_from_xyz xyz_file_blank = Inl ValueError"
proof -
  have a: "list_all columns_ok
             [atom_line_C @ [newline], atom_line_H @ [newline], atom_line_Cl @ [newline]]"
    by code_simp
  have r: "[columns_row (atom_line_C @ [newline]), columns_row (atom_line_H @ [newline]),
            columns_row (atom_line_Cl @ [newline])] =
           [(''C'', Finite 0, Finite 0, Finite 0), (''H'', Finite (3 / 2), Finite 0, Finite 0),
            (''Cl'', Finite (- 1 / 2), Finite (5 / 4), Finite 0)]"
    by code_simp
  have b: "list_ex empty_line (drop 2 xyz_file_blank)"
    by code_simp
  note t = xyz_all_or_abort [of xyz_file_blank "atom_line_C @ [newline]"
      "atom_line_H @ [newline]" "atom_line_Cl @ [newline]" "''3'' @ [newline]"
      "''comment'' @ [newline]"]
  have "parse_geom_from_xyz xyz_file =
          Inr [columns_row (atom_line_C @ [newline]), columns_row (atom_line_H @ [newline]),
               columns_row (atom_line_Cl @ [newline])]"
    unfolding xyz_file_def using t [THEN conjunct2, THEN conjunct1, THEN mp, OF a] by simp
  moreover have "parse_geom_from_xyz xyz_file_blank = Inl ValueError"
    using t [THEN conjunct2, THEN conjunct2, THEN mp, OF b] .
  ultimately show ?thesis
    using a b r by simp
qed

subsection \<open>C6: when the fixed-column reader fails\<close>

text \<open>
  C6 says that the reader fails on every line shorter than 47 characters. No statement of
  the reader looks at the length, and a slice is clipped to the line: \<open>short_line\<close> has 36
  characters and is read as H at (1,2,3).
\<close>

theorem short_line_counterexample:
  "length short_line = 36 \<and>
   fixed_columns short_line = Inr (''H'', Finite 1, Finite 2, Finite 3)"
  by code_simp

text \<open>
  C6, amended: the fixed-column reader fails, with \<^verbatim>\<open>ValueError\<close>, exactly when one of the
  substrings at offsets \<open>[2,17)\<close>, \<open>[18,32)\<close>, \<open>[33,47)\<close>, each clipped to the end of the
  line, does not parse as a floating-point number, and it returns the row of the slices
  otherwise; in particular every line of at most 33 characters is rejected.
\<close>

theorem fixed_columns_failure:
  "fixed_columns line = (if columns_ok line then Inr (columns_row line) else Inl ValueError) \<and>
   (length line \<le> 33 \<longrightarrow> fixed_columns line = Inl ValueError)"
  by (auto simp: fixed_columns_eq columns_ok_def py_float_empty_slice)

theorem fixed_columns_failure_witness:
  "length ''H 1.0 2.0 3.0'' \<le> 33 \<and> fixed_columns ''H 1.0 2.0 3.0'' = Inl ValueError \<and>
   columns_ok short_line \<and> fixed_columns short_line = Inr (columns_row short_line)"
proof -
  have a: "length ''H 1.0 2.0 3.0'' \<le> 33" by simp
  have b: "columns_ok short_line" by code_simp
  have "fixed_columns ''H 1.0 2.0 3.0'' = Inl ValueError"
    using fixed_columns_failure [of "''H 1.0 2.0 3.0''"] a by blast
  moreover have "fixed_columns short_line = Inr (columns_row short_line)"
    using fixed_columns_failure [of short_line] b by simp
  ultimately show ?thesis using a b by simp
qed

subsection \<open>C7: a route line before an atom line in a com file\<close>

text \<open>
  C7 says that the body \<open>com_body\<close>, the route line followed by the atom line
  \<^verbatim>\<open>C    0.000000   0.000000   0.000000\<close>, gives exactly one atom. The parse of that body
  raises \<^verbatim>\<open>ValueError\<close>.
\<close>

theorem com_route_line_counterexample:
  "parse_geom_from_com com_body = Inl ValueError"
  by code_simp

text \<open>
  C7, amended: in that body the route line contributes no candidate and the atom line is
  the only match, but its numbers do not stand in the columns of the reader (the slice
  \<open>[2,17)\<close> holds the first number and the first digit of the second), so the parse
  raises \<^verbatim>\<open>ValueError\<close>; with the atom line laid out on the columns, \<^verbatim>\<open>C\<close> and
  \<^verbatim>\<open>0.000000\<close> right-justified in 15, 14 and 14 columns with single spaces in columns 17
  and 32, the parse succeeds and gives exactly one atom, C at (0,0,0).
\<close>

theorem com_route_line:
  "re_findall route_line = [] \<and>
   com_matches com_body = [free_atom_line] \<and>
   py_slice 2 17 free_atom_line = ''   0.000000   0'' \<and>
   py_float (py_slice 2 17 free_atom_line) = None \<and>
   com_matches com_body_columns = [atom_line_C] \<and>
   parse_geom_from_com com_body_columns = Inr [(''C'', Finite 0, Finite 0, Finite 0)]"
  by code_simp

subsection \<open>C8: a log file with fewer than 4 chunks\<close>

text \<open>
  C8: for every log input whose archive splits into fewer than 4 chunks the parse fails
  (with the \<^verbatim>\<open>IndexError\<close> of \<^verbatim>\<open>chunks[3]\<close>) and returns no atoms; with 4 or more chunks
  this failure does not occur.
\<close>

theorem log_short_archive:
  "parse_geom_from_log lines = Inl IndexError \<longleftrightarrow> length (archive_chunks lines) < 4"
  by (simp add: parse_geom_from_log_eq)

theorem log_short_archive_witness:
  "length (archive_chunks short_log) = 2 \<and> parse_geom_from_log short_log = Inl IndexError \<and>
   length (archive_chunks example_log) = 5 \<and> parse_geom_from_log example_log \<noteq> Inl IndexError"
proof -
  have a: "length (archive_chunks short_log) = 2" by code_simp
  have b: "length (archive_chunks example_log) = 5" by code_simp
  from log_short_archive [of short_log] log_short_archive [of example_log] a b
  show ?thesis by simp
qed

subsection \<open>C9: the choice of the parser\<close>

text \<open>
  C9 says that every path ending in a supported extension reaches the parser of that
  extension. \<open>make_molecule_from_file\<close> takes what follows the first dot of the path as the
  key of \<open>parsing_dict\<close>: a path with a dot in its directory part, as \<^verbatim>\<open>glob\<close> returns it
  in \<^verbatim>\<open>main\<close> for the directories \<^verbatim>\<open>.\<close> and \<^verbatim>\<open>results.v2\<close>, raises \<^verbatim>\<open>KeyError\<close> although it
  ends in \<^verbatim>\<open>.log\<close>.
\<close>

theorem dispatch_first_dot:
  "make_molecule_from_file fs ''./mol.log'' ''.'' = Inl KeyError \<and>
   make_molecule_from_file fs ''results.v2/mol.log'' ''results.v2'' = Inl KeyError"
  by (simp add: make_molecule_from_file_def select_parser_def parsing_dict_def)

subsection \<open>C10: a log file without atom records\<close>

text \<open>
  C10: for every log input with at least 4 chunks whose chunk 3 has no element after the
  charge and multiplicity, the parser returns the empty list of atoms and raises nothing.
\<close>

theorem log_no_atom_records:
  "4 \<le> length (archive_chunks lines) \<Longrightarrow> archive_records lines = [] \<Longrightarrow>
   parse_geom_from_log lines = Inr []"
  by (simp add: parse_geom_from_log_eq)

theorem log_no_atom_records_witness:
  "4 \<le> length (archive_chunks no_records_log) \<and> archive_records no_records_log = [] \<and>
   parse_geom_from_log no_records_log = Inr []"
proof -
  have a: "4 \<le> length (archive_chunks no_records_log)" by code_simp
  have b: "archive_records no_records_log = []" by code_simp
  from log_no_atom_records [OF a b] a b show ?thesis by simp
qed

end
